theory Spec2Isabelle
  imports Main
begin

section \<open>The mock Druid server (mock-druid.py)\<close>

text \<open>
  The program is one request handler class, \<^verbatim>\<open>MockDruidHandler\<close>, with the methods
  \<^verbatim>\<open>do_GET\<close>, \<^verbatim>\<open>do_POST\<close> and \<^verbatim>\<open>log_message\<close>. The handler object is modelled as a
  record that is passed through the calls the methods make, in their order. What the
  methods write to the connection is kept as the list of those writes.

  Strings: the HTTP library decodes the request line and the headers as ISO-8859-1, so
  every character of \<^verbatim>\<open>self.path\<close> is a code point below 256, which is what \<^typ>\<open>char\<close> is.
\<close>

subsection \<open>Python string and list operations used by the handler\<close>

text \<open>\<^verbatim>\<open>s.startswith(p)\<close>\<close>

fun startswith :: "string \<Rightarrow> string \<Rightarrow> bool" where
  "startswith s [] = True"
| "startswith [] (p # ps) = False"
| "startswith (c # cs) (p # ps) = (c = p \<and> startswith cs ps)"

text \<open>
  \<^verbatim>\<open>s.split(sep)\<close> for a one-character separator: every occurrence of the separator ends
  a token, so a string with \<open>n\<close> separators gives \<open>n + 1\<close> tokens, some of them possibly
  empty, and the empty string gives one empty token.
\<close>

fun split :: "char \<Rightarrow> string \<Rightarrow> string list" where
  "split sep [] = [[]]"
| "split sep (c # cs) =
     (let r = split sep cs in if c = sep then [] # r else (c # hd r) # tl r)"

datatype py_error = TypeError | ValueError | IndexError | OverflowError

text \<open>\<^verbatim>\<open>xs[i]\<close>: a negative index counts from the end, an index out of range raises.\<close>

definition py_index :: "'a list \<Rightarrow> int \<Rightarrow> py_error + 'a" where
  "py_index xs i =
     (let len = int (length xs);
          k = (if i < 0 then i + len else i)
      in if k < 0 \<or> len \<le> k then Inl IndexError else Inr (xs ! nat k))"

text \<open>\<^verbatim>\<open>sep.join(xs)\<close>\<close>

fun join :: "string \<Rightarrow> string list \<Rightarrow> string" where
  "join sep [] = []"
| "join sep [x] = x"
| "join sep (x # y # ys) = x @ sep @ join sep (y # ys)"

text \<open>\<^verbatim>\<open>str(n)\<close> for an integer: decimal digits, a minus sign for a negative number.\<close>

fun str_nat :: "nat \<Rightarrow> string" where
  "str_nat n =
     (if n < 10 then [''0123456789'' ! n]
      else str_nat (n div 10) @ [''0123456789'' ! (n mod 10)])"

declare str_nat.simps [simp del]

definition str_int :: "int \<Rightarrow> string" where
  "str_int i = (if i < 0 then CHR ''-'' # str_nat (nat (- i)) else str_nat (nat i))"

subsection \<open>\<^verbatim>\<open>int(x)\<close> on a header value\<close>

text \<open>
  \<^verbatim>\<open>self.headers['Content-Length']\<close> is \<^verbatim>\<open>None\<close> when the header is absent, and
  \<^verbatim>\<open>int(None)\<close> raises \<^verbatim>\<open>TypeError\<close>. On a string, \<^verbatim>\<open>int\<close> strips white space at both
  ends, takes an optional sign, and then wants decimal digits, where single
  underscores may stand between two digits; anything else raises \<^verbatim>\<open>ValueError\<close>. So does
  a literal of more than 4300 digits, leading zeros counted and underscores not: this is
  the interpreter's default limit (\<^verbatim>\<open>sys.get_int_max_str_digits()\<close>, Python 3.11), which the
  program leaves as it is.
\<close>

definition max_str_digits :: nat where
  "max_str_digits = 4300"

definition is_space :: "char \<Rightarrow> bool" where
  "is_space c = (of_char c \<in> {9, 10, 11, 12, 13, 32, 133, 160 :: nat})"

definition is_digit :: "char \<Rightarrow> bool" where
  "is_digit c = (48 \<le> (of_char c :: nat) \<and> (of_char c :: nat) \<le> 57)"

definition strip :: "string \<Rightarrow> string" where
  "strip s = rev (dropWhile is_space (rev (dropWhile is_space s)))"

fun digits_value :: "nat \<Rightarrow> string \<Rightarrow> nat option" where
  "digits_value acc [] = Some acc"
| "digits_value acc (c # cs) =
     (if is_digit c then digits_value (10 * acc + (of_char c - 48)) cs
      else if c = CHR ''_'' \<and> cs \<noteq> [] \<and> is_digit (hd cs) then digits_value acc cs
      else None)"

definition int_of_str :: "string \<Rightarrow> int option" where
  "int_of_str s =
     (let t = strip s;
          neg = (t \<noteq> [] \<and> hd t = CHR ''-'');
          u = (if t \<noteq> [] \<and> (hd t = CHR ''-'' \<or> hd t = CHR ''+'') then tl t else t)
      in if u = [] \<or> \<not> is_digit (hd u) then None
         else (case digits_value 0 u of
                 None \<Rightarrow> None
               | Some n \<Rightarrow>
                   if max_str_digits < length (filter is_digit u) then None
                   else Some (if neg then - int n else int n)))"

definition py_int :: "string option \<Rightarrow> py_error + int" where
  "py_int x =
     (case x of
        None \<Rightarrow> Inl TypeError
      | Some s \<Rightarrow> (case int_of_str s of None \<Rightarrow> Inl ValueError | Some i \<Rightarrow> Inr i))"

subsection \<open>JSON values and \<^verbatim>\<open>json.dumps\<close>\<close>

text \<open>
  The values the handler builds: strings, integers, \<^verbatim>\<open>False\<close>, lists, and dictionaries,
  whose keys keep their insertion order (an association list).
\<close>

datatype json =
    JStr string
  | JInt int
  | JBool bool
  | JList "json list"
  | JDict "(string \<times> json) list"

text \<open>
  \<^verbatim>\<open>json.dumps\<close> with its defaults (\<^verbatim>\<open>ensure_ascii=True\<close>, separators \<^verbatim>\<open>', '\<close> and
  \<^verbatim>\<open>': '\<close>). In a string, the double quote, the backslash and every character outside
  the range from space to tilde are escaped, with a short escape where JSON has one and
  with \<^verbatim>\<open>\u00xx\<close> (lower-case hexadecimal) otherwise.
\<close>

definition hex_digit :: "nat \<Rightarrow> char" where
  "hex_digit n = ''0123456789abcdef'' ! (n mod 16)"

definition escape_char :: "char \<Rightarrow> string" where
  "escape_char c =
     (if c = CHR 0x22 then [CHR 0x5C, CHR 0x22]
      else if c = CHR 0x5C then [CHR 0x5C, CHR 0x5C]
      else if c = CHR 0x0A then [CHR 0x5C, CHR ''n'']
      else if c = CHR 0x0D then [CHR 0x5C, CHR ''r'']
      else if c = CHR 0x09 then [CHR 0x5C, CHR ''t'']
      else if c = CHR 0x08 then [CHR 0x5C, CHR ''b'']
      else if c = CHR 0x0C then [CHR 0x5C, CHR ''f'']
      else if 32 \<le> (of_char c :: nat) \<and> (of_char c :: nat) \<le> 126 then [c]
      else [CHR 0x5C, CHR ''u'', CHR ''0'', CHR ''0'',
            hex_digit (of_char c div 16), hex_digit (of_char c mod 16)])"

definition encode_str :: "string \<Rightarrow> string" where
  "encode_str s = CHR 0x22 # concat (map escape_char s) @ [CHR 0x22]"

primrec dumps :: "json \<Rightarrow> string" where
  "dumps (JStr s) = encode_str s"
| "dumps (JInt i) = str_int i"
| "dumps (JBool b) = (if b then ''true'' else ''false'')"
| "dumps (JList xs) = ''['' @ join '', '' (map dumps xs) @ '']''"
| "dumps (JDict kvs) =
     ''{'' @ join '', '' (map (\<lambda>kv. encode_str (fst kv) @ '': '' @ snd kv)
                              (map (map_prod id dumps) kvs)) @ ''}''"

subsection \<open>The handler object\<close>

text \<open>
  A request as the HTTP library hands it to the handler: the method (\<^verbatim>\<open>command\<close>), the
  request target (\<^verbatim>\<open>path\<close>, query string included, not URL-decoded), the raw request line
  (used by the access log only), the header lookup \<^verbatim>\<open>self.headers[name]\<close>, the bytes that
  follow the header block on the connection (\<open>body\<close>), and whether the client closes its
  sending side after them (\<open>closed\<close>).
\<close>

record request =
  command :: string
  path :: string
  requestline :: string
  headers :: "string \<rightharpoonup> string"
  body :: string
  closed :: bool

text \<open>What the handler writes to the connection, one entry per call.\<close>

datatype wire =
    StatusLine nat
  | HeaderLine string string
  | EndHeaders
  | Body string

text \<open>
  The handler: its request, the unread part of \<^verbatim>\<open>rfile\<close>, what went to \<^verbatim>\<open>wfile\<close> so far,
  and the lines printed to the standard output of the process, which outlives the
  handler and is the only thing one request leaves behind for the next.
\<close>

record handler =
  request :: request
  rfile :: string
  wfile :: "wire list"
  stdout :: "string list"

text \<open>
  How a call of a handler method ends: it returns, it raises, or it waits forever in
  \<^verbatim>\<open>rfile.read\<close>. \<open>Unsupported\<close> is the library's own answer (status 501) to a method for
  which the class has no \<^verbatim>\<open>do_...\<close>; no code of the class but \<^verbatim>\<open>log_message\<close> runs
  then, and neither that error page nor its log lines are modelled.
\<close>

datatype outcome = Returned | Raised py_error | Blocked | Unsupported

text \<open>
  \<^verbatim>\<open>log_message\<close> is overridden by the class: it prints the formatted message after the
  prefix \<^verbatim>\<open>Mock Druid: \<close>. The library calls it from \<^verbatim>\<open>send_response\<close>, through
  \<^verbatim>\<open>log_request\<close>, with the request line in quotes, the status code and a dash.
\<close>

definition log_message :: "string \<Rightarrow> handler \<Rightarrow> handler" where
  "log_message msg h = h\<lparr>stdout := stdout h @ [''Mock Druid: '' @ msg]\<rparr>"

definition log_request :: "nat \<Rightarrow> handler \<Rightarrow> handler" where
  "log_request code h =
     log_message ([CHR 0x22] @ requestline (request h) @ [CHR 0x22] @ '' ''
                  @ str_nat code @ '' -'') h"

text \<open>
  \<^verbatim>\<open>wfile\<close> keeps the calls the handler's code makes, one entry per call. What the library
  puts on the connection for them, with the \<^verbatim>\<open>Server\<close> and \<^verbatim>\<open>Date\<close> headers that its
  \<^verbatim>\<open>send_response\<close> adds by itself, is \<open>on_wire\<close> below.
\<close>

definition send_response :: "nat \<Rightarrow> handler \<Rightarrow> handler" where
  "send_response code h = (let h = log_request code h in h\<lparr>wfile := wfile h @ [StatusLine code]\<rparr>)"

definition send_header :: "string \<Rightarrow> string \<Rightarrow> handler \<Rightarrow> handler" where
  "send_header keyword val h = h\<lparr>wfile := wfile h @ [HeaderLine keyword val]\<rparr>"

definition end_headers :: "handler \<Rightarrow> handler" where
  "end_headers h = h\<lparr>wfile := wfile h @ [EndHeaders]\<rparr>"

definition wfile_write :: "string \<Rightarrow> handler \<Rightarrow> handler" where
  "wfile_write bytes h = h\<lparr>wfile := wfile h @ [Body bytes]\<rparr>"

text \<open>
  \<^verbatim>\<open>rfile.read(n)\<close> on the buffered connection (a 64-bit build). A length that does not
  fit the machine's signed size, or for which no bytes object can exist, raises
  \<^verbatim>\<open>OverflowError\<close>; any other length below \<open>-1\<close> raises \<^verbatim>\<open>ValueError\<close>; both before anything
  is read. Otherwise the call gives \<open>n\<close> bytes once they are there; everything up to the
  end of the stream when the client has closed it before that, or when \<open>n\<close> is \<open>-1\<close>; and
  it does not return while the bytes are missing and the stream stays open (\<open>None\<close>).
  The buffer for the \<open>n\<close> bytes is taken from the machine's memory; a machine that cannot
  give it (\<^verbatim>\<open>MemoryError\<close>) is not modelled.
\<close>

definition max_read :: int where
  "max_read = 2 ^ 63 - 34"

definition rfile_read :: "int \<Rightarrow> handler \<Rightarrow> (py_error + string \<times> handler) option" where
  "rfile_read n h =
     (if n < - (2 ^ 63) \<or> max_read < n then Some (Inl OverflowError)
      else if n < - 1 then Some (Inl ValueError)
      else if 0 \<le> n \<and> nat n \<le> length (rfile h)
        then Some (Inr (take (nat n) (rfile h), h\<lparr>rfile := drop (nat n) (rfile h)\<rparr>))
      else if closed (request h) then Some (Inr (rfile h, h\<lparr>rfile := []\<rparr>))
      else None)"

subsection \<open>The response documents\<close>

definition status_response :: json where
  "status_response = JDict [(''status'', JStr ''healthy''), (''version'', JStr ''28.0.1-mock'')]"

definition datasources_response :: json where
  "datasources_response = JList [JStr ''wikipedia'', JStr ''koalas'', JStr ''flights'']"

definition segments_response :: "string \<Rightarrow> json" where
  "segments_response datasource =
     JList [JDict [
       (''dataSource'', JStr datasource),
       (''interval'', JStr ''2023-01-01T00:00:00.000Z/2023-01-02T00:00:00.000Z''),
       (''version'', JStr ''2023-01-01T00:00:00.000Z''),
       (''partition'', JInt 0),
       (''size'', JInt 1000000)]]"

definition metadata_response :: "string \<Rightarrow> json" where
  "metadata_response datasource =
     JDict [
       (''name'', JStr datasource),
       (''segments'', JDict [
          (''intervals'', JList [JStr ''2023-01-01T00:00:00.000Z/2023-01-02T00:00:00.000Z''])]),
       (''columns'', JList [
          JDict [(''name'', JStr ''timestamp''), (''type'', JStr ''LONG'')],
          JDict [(''name'', JStr ''count''), (''type'', JStr ''LONG'')],
          JDict [(''name'', JStr ''dimension''), (''type'', JStr ''STRING'')]]),
       (''queryGranularity'', JStr ''none''),
       (''segmentGranularity'', JStr ''day''),
       (''rollup'', JBool False)]"

definition sql_response :: json where
  "sql_response = JList [JList [JStr ''test''], JList [JInt 1]]"

subsection \<open>\<^verbatim>\<open>do_GET\<close> and \<^verbatim>\<open>do_POST\<close>\<close>

definition do_GET :: "handler \<Rightarrow> outcome \<times> handler" where
  "do_GET h =
     (if path (request h) = ''/status'' then
        (let h = send_response 200 h;
             h = send_header ''Content-type'' ''application/json'' h;
             h = end_headers h;
             response = status_response
         in (Returned, wfile_write (dumps response) h))
      else if path (request h) = ''/druid/v2/datasources'' then
        (let h = send_response 200 h;
             h = send_header ''Content-type'' ''application/json'' h;
             h = end_headers h;
             response = datasources_response
         in (Returned, wfile_write (dumps response) h))
      else if startswith (path (request h)) ''/druid/coordinator/v1/datasources/'' then
        (case py_index (split CHR ''/'' (path (request h))) (- 1) of
           Inl e \<Rightarrow> (Raised e, h)
         | Inr datasource \<Rightarrow>
             if datasource = ''segments'' then
               (case py_index (split CHR ''/'' (path (request h))) (- 2) of
                  Inl e \<Rightarrow> (Raised e, h)
                | Inr datasource \<Rightarrow>
                    (let h = send_response 200 h;
                         h = send_header ''Content-type'' ''application/json'' h;
                         h = end_headers h;
                         response = segments_response datasource
                     in (Returned, wfile_write (dumps response) h)))
             else
               (let h = send_response 200 h;
                    h = send_header ''Content-type'' ''application/json'' h;
                    h = end_headers h;
                    response = metadata_response datasource
                in (Returned, wfile_write (dumps response) h)))
      else
        (let h = send_response 404 h
         in (Returned, end_headers h)))"

definition do_POST :: "handler \<Rightarrow> outcome \<times> handler" where
  "do_POST h =
     (if path (request h) = ''/druid/v2/sql'' then
        (case py_int (headers (request h) ''Content-Length'') of
           Inl e \<Rightarrow> (Raised e, h)
         | Inr content_length \<Rightarrow>
             (case rfile_read content_length h of
                None \<Rightarrow> (Blocked, h)
              | Some (Inl e) \<Rightarrow> (Raised e, h)
              | Some (Inr (post_data, h)) \<Rightarrow>
                  (let h = send_response 200 h;
                       h = send_header ''Content-type'' ''application/json'' h;
                       h = end_headers h;
                       response = sql_response
                   in (Returned, wfile_write (dumps response) h))))
      else
        (let h = send_response 404 h
         in (Returned, end_headers h)))"

text \<open>
  The library's dispatch on the method name: a fresh handler for the request, then
  \<^verbatim>\<open>do_GET\<close> or \<^verbatim>\<open>do_POST\<close>, the only two methods the class defines. \<open>out\<close> is what the
  process has printed before this request.
\<close>

definition new_handler :: "string list \<Rightarrow> request \<Rightarrow> handler" where
  "new_handler out r = \<lparr>request = r, rfile = body r, wfile = [], stdout = out\<rparr>"

definition handle_one_request :: "string list \<Rightarrow> request \<Rightarrow> outcome \<times> handler" where
  "handle_one_request out r =
     (let h = new_handler out r in
      if command r = ''GET'' then do_GET h
      else if command r = ''POST'' then do_POST h
      else (Unsupported, h))"

text \<open>Status, headers and body of a response, read off the writes.\<close>

fun response_status :: "wire list \<Rightarrow> nat option" where
  "response_status [] = None"
| "response_status (StatusLine code # ws) = Some code"
| "response_status (w # ws) = response_status ws"

fun response_headers :: "wire list \<Rightarrow> (string \<times> string) list" where
  "response_headers [] = []"
| "response_headers (HeaderLine k v # ws) = (k, v) # response_headers ws"
| "response_headers (w # ws) = response_headers ws"

fun response_body :: "wire list \<Rightarrow> string" where
  "response_body [] = []"
| "response_body (Body bytes # ws) = bytes @ response_body ws"
| "response_body (w # ws) = response_body ws"

subsection \<open>The response as the client sees it\<close>

text \<open>How the call ended, and what was written to the connection.\<close>

definition reply :: "string list \<Rightarrow> request \<Rightarrow> outcome \<times> wire list" where
  "reply out r = (let (oc, h) = handle_one_request out r in (oc, wfile h))"

text \<open>
  The handler after \<^verbatim>\<open>send_response(code)\<close> and the further writes \<open>ws\<close>: the writes are
  appended to \<^verbatim>\<open>wfile\<close>, and the access log has one more line.
\<close>

definition sent :: "nat \<Rightarrow> wire list \<Rightarrow> handler \<Rightarrow> handler" where
  "sent code ws h =
     h\<lparr>wfile := wfile h @ StatusLine code # ws,
       stdout := stdout h @ [''Mock Druid: '' @ [CHR 0x22] @ requestline (request h) @ [CHR 0x22]
                             @ '' '' @ str_nat code @ '' -'']\<rparr>"

definition json_wire :: "json \<Rightarrow> wire list" where
  "json_wire j = [HeaderLine ''Content-type'' ''application/json'', EndHeaders, Body (dumps j)]"

subsection \<open>What the library puts on the connection\<close>




subsection \<open>The datasource name, as the specification words it\<close>

text \<open>
  Not taken from the code but from the specification, to be compared with what \<^verbatim>\<open>do_GET\<close>
  computes: the path is split on the slash; the name is the token before a final token
  \<^verbatim>\<open>segments\<close> when there is one, and the final token otherwise.
\<close>

definition spec_datasource_name :: "string \<Rightarrow> string" where
  "spec_datasource_name p =
     (let tokens = split CHR ''/'' p
      in if last tokens = ''segments'' then last (butlast tokens) else last tokens)"

text \<open>A character that \<^verbatim>\<open>json.dumps\<close> writes as it is.\<close>

definition plain_char :: "char \<Rightarrow> bool" where
  "plain_char c =
     (32 \<le> (of_char c :: nat) \<and> (of_char c :: nat) \<le> 126 \<and> c \<noteq> CHR 0x22 \<and> c \<noteq> CHR 0x5C)"

subsection \<open>Reading a JSON string\<close>

text \<open>
  What a client's JSON parser does with a string of the response: the text between the
  quotes is read back, every escape replaced by the character it stands for. Only the
  escapes for code points below 256 are read, which are all that come out of a Latin-1 string. This
  is the yardstick for the echoed name, not a part of the program.
\<close>

definition hex_value :: "char \<Rightarrow> nat option" where
  "hex_value c =
     (let n = (of_char c :: nat)
      in if 48 \<le> n \<and> n \<le> 57 then Some (n - 48)
         else if 97 \<le> n \<and> n \<le> 102 then Some (n - 87)
         else if 65 \<le> n \<and> n \<le> 70 then Some (n - 55)
         else None)"

definition short_escape :: "char \<Rightarrow> char option" where
  "short_escape e =
     (if e = CHR 0x22 \<or> e = CHR 0x5C \<or> e = CHR ''/'' then Some e
      else if e = CHR ''n'' then Some (CHR 0x0A)
      else if e = CHR ''r'' then Some (CHR 0x0D)
      else if e = CHR ''t'' then Some (CHR 0x09)
      else if e = CHR ''b'' then Some (CHR 0x08)
      else if e = CHR ''f'' then Some (CHR 0x0C)
      else None)"

fun decode_chars :: "string \<Rightarrow> string option" where
  "decode_chars [] = None"
| "decode_chars (c # cs) =
     (if c = CHR 0x22 then (if cs = [] then Some [] else None)
      else if c = CHR 0x5C then
        (case cs of
           [] \<Rightarrow> None
         | e # rest \<Rightarrow>
             if e = CHR ''u'' then
               (case rest of
                  a # b # x # y # rest' \<Rightarrow>
                    (if hex_value a = Some 0 \<and> hex_value b = Some 0 then
                       (case (hex_value x, hex_value y) of
                          (Some hi, Some lo) \<Rightarrow>
                            map_option ((#) (char_of (16 * hi + lo))) (decode_chars rest')
                        | _ \<Rightarrow> None)
                     else None)
                | _ \<Rightarrow> None)
             else
               (case short_escape e of
                  None \<Rightarrow> None
                | Some ch \<Rightarrow> map_option ((#) ch) (decode_chars rest)))
      else map_option ((#) c) (decode_chars cs))"

definition decode_str :: "string \<Rightarrow> string option" where
  "decode_str s =
     (case s of
        [] \<Rightarrow> None
      | c # cs \<Rightarrow> if c = CHR 0x22 then decode_chars cs else None)"

section \<open>Properties\<close>

subsection \<open>Splitting a path\<close>

lemma split_not_Nil: "split sep s \<noteq> []"
  by (induction s) (simp_all add: Let_def)

lemma split_append_sep: "split sep (a @ sep # b) = split sep a @ split sep b"
proof (induction a)
  case Nil
  show ?case by simp
next
  case (Cons c a)
  have ne: "split sep a \<noteq> []" by (rule split_not_Nil)
  show ?case
  proof (cases "c = sep")
    case True
    with Cons show ?thesis by simp
  next
    case False
    with Cons ne show ?thesis by (simp add: Let_def)
  qed
qed

lemma split_no_sep: "sep \<notin> set s \<Longrightarrow> split sep s = [s]"
  by (induction s) (auto simp add: Let_def)

lemma startswith_iff: "startswith s p \<longleftrightarrow> (\<exists>t. s = p @ t)"
  by (induction s p rule: startswith.induct) auto

lemma py_index_last: "xs \<noteq> [] \<Longrightarrow> py_index xs (- 1) = Inr (last xs)"
  by (cases xs rule: rev_cases) (simp_all add: py_index_def Let_def nth_append)

lemma py_index_before_last:
  "2 \<le> length xs \<Longrightarrow> py_index xs (- 2) = Inr (xs ! (length xs - 2))"
  by (simp add: py_index_def Let_def nat_diff_distrib' nat_add_distrib) 

lemma split_prefix: "split CHR ''/'' ''/druid/coordinator/v1/datasources'' = ['''', ''druid'', ''coordinator'', ''v1'', ''datasources'']"
  by (simp add: Let_def)

lemma split_coordinator:
  "split CHR ''/'' (''/druid/coordinator/v1/datasources/'' @ t) =
     ['''', ''druid'', ''coordinator'', ''v1'', ''datasources''] @ split CHR ''/'' t"
proof -
  have "''/druid/coordinator/v1/datasources/'' @ t = ''/druid/coordinator/v1/datasources'' @ CHR ''/'' # t"
    by simp
  then show ?thesis
    by (simp only: split_append_sep split_prefix)
qed

subsection \<open>The branches of the handler\<close>

lemmas send_defs =
  send_response_def log_request_def log_message_def send_header_def end_headers_def
  wfile_write_def sent_def json_wire_def Let_def

lemma send_json_chain:
  "(let h = send_response 200 h;
        h = send_header ''Content-type'' ''application/json'' h;
        h = end_headers h;
        response = j
    in (Returned, wfile_write (dumps response) h)) = (Returned, sent 200 (json_wire j) h)"
  by (simp add: send_defs)

lemma send_404_chain:
  "(let h = send_response 404 h in (Returned, end_headers h)) = (Returned, sent 404 [EndHeaders] h)"
  by (simp add: send_defs)

lemma do_GET_status:
  "path (request h) = ''/status'' \<Longrightarrow> do_GET h = (Returned, sent 200 (json_wire status_response) h)"
  unfolding do_GET_def send_json_chain send_404_chain by simp

lemma do_GET_datasources:
  "path (request h) = ''/druid/v2/datasources'' \<Longrightarrow>
   do_GET h = (Returned, sent 200 (json_wire datasources_response) h)"
  unfolding do_GET_def send_json_chain send_404_chain by simp

lemma do_GET_404:
  "path (request h) \<noteq> ''/status'' \<Longrightarrow> path (request h) \<noteq> ''/druid/v2/datasources'' \<Longrightarrow>
   \<not> startswith (path (request h)) ''/druid/coordinator/v1/datasources/'' \<Longrightarrow>
   do_GET h = (Returned, sent 404 [EndHeaders] h)"
  unfolding do_GET_def send_json_chain send_404_chain by simp

lemma coordinator_not_fixed:
  assumes "startswith p ''/druid/coordinator/v1/datasources/''"
  shows "p \<noteq> ''/status''" and "p \<noteq> ''/druid/v2/datasources''"
  using assms by auto

lemma do_GET_coordinator:
  assumes pre: "startswith (path (request h)) ''/druid/coordinator/v1/datasources/''"
  shows "do_GET h =
           (Returned,
            sent 200 (json_wire
              (let toks = split CHR ''/'' (path (request h)) in
               if last toks = ''segments'' then segments_response (toks ! (length toks - 2))
               else metadata_response (last toks))) h)"
proof -
  obtain t where p: "path (request h) = ''/druid/coordinator/v1/datasources/'' @ t"
    using pre unfolding startswith_iff by blast
  let ?toks = "split CHR ''/'' (path (request h))"
  have len: "2 \<le> length ?toks"
    unfolding p split_coordinator by simp
  then have ne: "?toks \<noteq> []" by auto
  have i1: "py_index ?toks (- 1) = Inr (last ?toks)"
    using ne by (rule py_index_last)
  have i2: "py_index ?toks (- 2) = Inr (?toks ! (length ?toks - 2))"
    using len by (rule py_index_before_last)
  have n1: "path (request h) \<noteq> ''/status''" and n2: "path (request h) \<noteq> ''/druid/v2/datasources''"
    using coordinator_not_fixed [OF pre] by blast+
  show ?thesis
    unfolding do_GET_def send_json_chain send_404_chain i1 i2
    using n1 n2 pre by (simp add: Let_def)
qed

lemma do_POST_404:
  "path (request h) \<noteq> ''/druid/v2/sql'' \<Longrightarrow> do_POST h = (Returned, sent 404 [EndHeaders] h)"
  unfolding do_POST_def send_json_chain send_404_chain by simp

lemma do_POST_sql:
  assumes "path (request h) = ''/druid/v2/sql''"
    and "headers (request h) ''Content-Length'' = Some v"
    and "int_of_str v = Some n"
    and "0 \<le> n" and "n \<le> max_read" and "nat n \<le> length (rfile h)"
  shows "do_POST h =
           (Returned, sent 200 (json_wire sql_response) (h\<lparr>rfile := drop (nat n) (rfile h)\<rparr>))"
  unfolding do_POST_def send_json_chain send_404_chain
  using assms by (simp add: py_int_def rfile_read_def)

lemma do_POST_no_length:
  assumes "path (request h) = ''/druid/v2/sql''"
    and "headers (request h) ''Content-Length'' = None"
  shows "do_POST h = (Raised TypeError, h)"
  unfolding do_POST_def using assms by (simp add: py_int_def)

lemma do_POST_sent_needs_length:
  assumes "path (request h) = ''/druid/v2/sql''"
    and "do_POST h = (oc, h')" and "wfile h' \<noteq> wfile h"
  shows "\<exists>v n. headers (request h) ''Content-Length'' = Some v \<and> int_of_str v = Some n"
  using assms unfolding do_POST_def
  by (auto simp add: py_int_def split: option.splits sum.splits)

subsection \<open>The bytes of the documents\<close>

lemma str_nat_million: "str_nat 1000000 = ''1000000''"
  by (simp add: str_nat.simps)

lemma dumps_status: \<open>dumps status_response = ''{"status": "healthy", "version": "28.0.1-mock"}''\<close>
  by (simp add: status_response_def encode_str_def escape_char_def)

lemma dumps_datasources: \<open>dumps datasources_response = ''["wikipedia", "koalas", "flights"]''\<close>
  by (simp add: datasources_response_def encode_str_def escape_char_def)

lemma dumps_sql: \<open>dumps sql_response = ''[["test"], [1]]''\<close>
  by (simp add: sql_response_def encode_str_def escape_char_def str_int_def str_nat.simps)

lemma dumps_segments: \<open>dumps (segments_response name) =
  ''[{"dataSource": '' @ encode_str name @ '', "interval": "2023-01-01T00:00:00.000Z/2023-01-02T00:00:00.000Z", "version": "2023-01-01T00:00:00.000Z", "partition": 0, "size": 1000000}]''\<close>
proof -
  have e1: \<open>encode_str ''dataSource'' = ''"dataSource"''\<close>
   and e2: \<open>encode_str ''interval'' = ''"interval"''\<close>
   and e3: \<open>encode_str ''2023-01-01T00:00:00.000Z/2023-01-02T00:00:00.000Z'' = ''"2023-01-01T00:00:00.000Z/2023-01-02T00:00:00.000Z"''\<close>
   and e4: \<open>encode_str ''version'' = ''"version"''\<close>
   and e5: \<open>encode_str ''2023-01-01T00:00:00.000Z'' = ''"2023-01-01T00:00:00.000Z"''\<close>
   and e6: \<open>encode_str ''partition'' = ''"partition"''\<close>
   and e7: \<open>encode_str ''size'' = ''"size"''\<close>
    by (simp_all add: encode_str_def escape_char_def)
  show ?thesis
    by (simp add: segments_response_def e1 e2 e3 e4 e5 e6 e7 str_int_def str_nat_million str_nat.simps [of 0])
qed

subsection \<open>From the handler to the reply\<close>

lemma wfile_sent_new: "wfile (sent code ws (new_handler out r)) = StatusLine code # ws"
  by (simp add: sent_def new_handler_def)

lemma reply_GET:
  assumes "command r = ''GET''"
    and "do_GET (new_handler out r) = (oc, sent code ws (new_handler out r))"
  shows "reply out r = (oc, StatusLine code # ws)"
  using assms by (simp add: reply_def handle_one_request_def wfile_sent_new)

lemma reply_POST:
  assumes "command r = ''POST''"
    and "do_POST (new_handler out r) = (oc, sent code ws h')" and "wfile h' = []"
  shows "reply out r = (oc, StatusLine code # ws)"
  using assms by (simp add: reply_def handle_one_request_def sent_def)

lemma request_new_handler: "request (new_handler out r) = r"
  by (simp add: new_handler_def)

subsection \<open>The metadata document and the tokens of a coordinator path\<close>

lemma dumps_metadata: \<open>dumps (metadata_response name) =
  ''{"name": '' @ encode_str name @ '', "segments": {"intervals": ["2023-01-01T00:00:00.000Z/2023-01-02T00:00:00.000Z"]}, "columns": [{"name": "timestamp", "type": "LONG"}, {"name": "count", "type": "LONG"}, {"name": "dimension", "type": "STRING"}], "queryGranularity": "none", "segmentGranularity": "day", "rollup": false}''\<close>
proof -
  have e: \<open>encode_str ''name'' = ''"name"''\<close>
    \<open>encode_str ''segments'' = ''"segments"''\<close>
    \<open>encode_str ''intervals'' = ''"intervals"''\<close>
    \<open>encode_str ''2023-01-01T00:00:00.000Z/2023-01-02T00:00:00.000Z'' = ''"2023-01-01T00:00:00.000Z/2023-01-02T00:00:00.000Z"''\<close>
    \<open>encode_str ''columns'' = ''"columns"''\<close>
    \<open>encode_str ''type'' = ''"type"''\<close>
    \<open>encode_str ''timestamp'' = ''"timestamp"''\<close>
    \<open>encode_str ''count'' = ''"count"''\<close>
    \<open>encode_str ''dimension'' = ''"dimension"''\<close>
    \<open>encode_str ''LONG'' = ''"LONG"''\<close>
    \<open>encode_str ''STRING'' = ''"STRING"''\<close>
    \<open>encode_str ''queryGranularity'' = ''"queryGranularity"''\<close>
    \<open>encode_str ''none'' = ''"none"''\<close>
    \<open>encode_str ''segmentGranularity'' = ''"segmentGranularity"''\<close>
    \<open>encode_str ''day'' = ''"day"''\<close>
    \<open>encode_str ''rollup'' = ''"rollup"''\<close>
    by (simp_all add: encode_str_def escape_char_def)
  show ?thesis
    by (simp add: metadata_response_def e)
qed

lemma segments_tokens:
  assumes "CHR ''/'' \<notin> set name"
  shows "split CHR ''/'' (''/druid/coordinator/v1/datasources/'' @ name @ ''/segments'') =
           ['''', ''druid'', ''coordinator'', ''v1'', ''datasources'', name, ''segments'']"
proof -
  have "split CHR ''/'' (name @ ''/segments'') = split CHR ''/'' name @ split CHR ''/'' ''segments''"
    using split_append_sep [of "CHR ''/''" name "''segments''"] by simp
  also have "\<dots> = [name, ''segments'']"
    using assms by (simp add: split_no_sep Let_def)
  finally show ?thesis
    unfolding split_coordinator by simp
qed

lemma metadata_tokens:
  assumes "CHR ''/'' \<notin> set name"
  shows "split CHR ''/'' (''/druid/coordinator/v1/datasources/'' @ name) =
           ['''', ''druid'', ''coordinator'', ''v1'', ''datasources'', name]"
  unfolding split_coordinator using assms by (simp add: split_no_sep)

lemma startswith_append: "startswith (p @ t) p"
  by (simp add: startswith_iff)

lemma reply_coordinator:
  assumes "command r = ''GET''"
    and "startswith (path r) ''/druid/coordinator/v1/datasources/''"
  shows "reply out r =
           (Returned,
            StatusLine 200 #
            json_wire
              (let toks = split CHR ''/'' (path r) in
               if last toks = ''segments'' then segments_response (toks ! (length toks - 2))
               else metadata_response (last toks)))"
proof -
  have "startswith (path (request (new_handler out r))) ''/druid/coordinator/v1/datasources/''"
    using assms(2) by (simp add: request_new_handler)
  from do_GET_coordinator [OF this] show ?thesis
    by (intro reply_GET [OF assms(1)]) (simp add: request_new_handler)
qed

lemma segments_not_metadata: "dumps (metadata_response b) \<noteq> dumps (segments_response a)"
  by (simp add: segments_response_def metadata_response_def)

subsection \<open>Strings written as they are, and reading a string back\<close>

lemma encode_str_plain:
  assumes "\<forall>c \<in> set s. plain_char c"
  shows "encode_str s = CHR 0x22 # s @ [CHR 0x22]"
proof -
  have "escape_char c = [c]" if "plain_char c" for c
  proof -
    have "c \<noteq> CHR 0x0A" "c \<noteq> CHR 0x0D" "c \<noteq> CHR 0x09" "c \<noteq> CHR 0x08" "c \<noteq> CHR 0x0C"
      using that by (auto simp add: plain_char_def)
    with that show ?thesis
      by (simp add: escape_char_def plain_char_def)
  qed
  then have "concat (map escape_char s) = s"
    using assms by (induction s) simp_all
  then show ?thesis
    by (simp add: encode_str_def)
qed

lemma hex_value_hex_digit: "k < 16 \<Longrightarrow> hex_value (hex_digit k) = Some k"
proof -
  assume "k < 16"
  then have "k = 0 \<or> k = 1 \<or> k = 2 \<or> k = 3 \<or> k = 4 \<or> k = 5 \<or> k = 6 \<or> k = 7 \<or> k = 8 \<or> k = 9
    \<or> k = 10 \<or> k = 11 \<or> k = 12 \<or> k = 13 \<or> k = 14 \<or> k = 15"
    by arith
  then show ?thesis
    by (elim disjE) (simp_all add: hex_digit_def hex_value_def)
qed

lemma char_of_hex_parts: "char_of (16 * ((of_char c :: nat) div 16) + of_char c mod 16) = c"
  by simp

lemma decode_escape_char:
  "decode_chars (escape_char c @ t) = map_option ((#) c) (decode_chars t)"
proof -
  let ?n = "of_char c :: nat"
  have hi: "?n div 16 < 16"
    by (rule less_mult_imp_div_less) simp
  have lo: "?n mod 16 < 16" by simp
  consider (short) "c \<in> {CHR 0x22, CHR 0x5C, CHR 0x0A, CHR 0x0D, CHR 0x09, CHR 0x08, CHR 0x0C}"
    | (plain) "c \<notin> {CHR 0x22, CHR 0x5C, CHR 0x0A, CHR 0x0D, CHR 0x09, CHR 0x08, CHR 0x0C}"
        "32 \<le> ?n \<and> ?n \<le> 126"
    | (hex) "c \<notin> {CHR 0x22, CHR 0x5C, CHR 0x0A, CHR 0x0D, CHR 0x09, CHR 0x08, CHR 0x0C}"
        "\<not> (32 \<le> ?n \<and> ?n \<le> 126)"
    by blast
  then show ?thesis
  proof cases
    case short
    then show ?thesis
      by (auto simp add: escape_char_def short_escape_def)
  next
    case plain
    then show ?thesis
      by (simp add: escape_char_def)
  next
    case hex
    have z: "hex_value CHR ''0'' = Some 0"
      by (simp add: hex_value_def)
    from hex show ?thesis
      by (simp add: escape_char_def z hex_value_hex_digit [OF hi] hex_value_hex_digit [OF lo]
          char_of_hex_parts short_escape_def)
  qed
qed

lemma decode_chars_escaped:
  "decode_chars (concat (map escape_char s) @ [CHR 0x22]) = Some s"
  by (induction s) (simp_all add: decode_escape_char)

lemma decode_encode_str: "decode_str (encode_str s) = Some s"
  by (simp add: decode_str_def encode_str_def decode_chars_escaped)

subsection \<open>The token before the last\<close>

lemma last_butlast_nth: "2 \<le> length xs \<Longrightarrow> last (butlast xs) = xs ! (length xs - 2)"
proof -
  assume len: "2 \<le> length xs"
  then have "butlast xs \<noteq> []"
    by (cases xs rule: rev_cases) auto
  then have "last (butlast xs) = butlast xs ! (length (butlast xs) - 1)"
    by (rule last_conv_nth)
  also have "\<dots> = xs ! (length xs - 2)"
    using len by (simp add: nth_butlast numeral_2_eq_2)
  finally show ?thesis .
qed

lemma coordinator_tokens_length:
  assumes "startswith p ''/druid/coordinator/v1/datasources/''"
  shows "6 \<le> length (split CHR ''/'' p)"
proof -
  obtain t where "p = ''/druid/coordinator/v1/datasources/'' @ t"
    using assms unfolding startswith_iff by blast
  moreover have "1 \<le> length (split CHR ''/'' t)"
    using split_not_Nil [of "CHR ''/''" t] by (cases "split CHR ''/'' t") simp_all
  ultimately show ?thesis
    by (simp add: split_coordinator)
qed

subsection \<open>The reply does not depend on the access log\<close>





subsection \<open>What one request leaves behind, and the ways \<^verbatim>\<open>do_POST\<close> gives no answer\<close>

lemma do_GET_answers: "\<exists>code ws. do_GET h = (Returned, sent code ws h)"
proof -
  consider "path (request h) = ''/status''" | "path (request h) = ''/druid/v2/datasources''"
    | "startswith (path (request h)) ''/druid/coordinator/v1/datasources/''"
    | "path (request h) \<noteq> ''/status''" "path (request h) \<noteq> ''/druid/v2/datasources''"
      "\<not> startswith (path (request h)) ''/druid/coordinator/v1/datasources/''"
    by blast
  then show ?thesis
  proof cases
    case 1
    from do_GET_status [OF this] show ?thesis by blast
  next
    case 2
    from do_GET_datasources [OF this] show ?thesis by blast
  next
    case 3
    from do_GET_coordinator [OF this] show ?thesis by blast
  next
    case 4
    from do_GET_404 [OF this] show ?thesis by blast
  qed
qed

lemma access_log_grows:
  assumes "command r = ''GET''"
  shows "length (stdout (snd (handle_one_request out r))) = Suc (length out)"
proof -
  obtain code ws where "do_GET (new_handler out r) = (Returned, sent code ws (new_handler out r))"
    using do_GET_answers by blast
  then show ?thesis
    using assms by (simp add: handle_one_request_def sent_def new_handler_def)
qed

lemma do_POST_bad_length:
  assumes "path (request h) = ''/druid/v2/sql''"
    and "headers (request h) ''Content-Length'' = Some v" and "int_of_str v = None"
  shows "do_POST h = (Raised ValueError, h)"
  unfolding do_POST_def using assms by (simp add: py_int_def)

lemma do_POST_blocks:
  assumes "path (request h) = ''/druid/v2/sql''"
    and "headers (request h) ''Content-Length'' = Some v" and "int_of_str v = Some n"
    and "n = - 1 \<or> (0 \<le> n \<and> n \<le> max_read \<and> length (rfile h) < nat n)"
    and "\<not> closed (request h)"
  shows "do_POST h = (Blocked, h)"
  unfolding do_POST_def using assms
  by (auto simp add: py_int_def rfile_read_def max_read_def)

lemma do_POST_bad_read:
  assumes "path (request h) = ''/druid/v2/sql''"
    and "headers (request h) ''Content-Length'' = Some v" and "int_of_str v = Some n"
    and "n < - 1 \<or> max_read < n"
  shows "do_POST h = (Raised ValueError, h) \<or> do_POST h = (Raised OverflowError, h)"
  unfolding do_POST_def using assms
  by (auto simp add: py_int_def rfile_read_def max_read_def)

subsection \<open>A literal of too many digits\<close>

lemma digits_value_zeros: "digits_value 0 (replicate k CHR ''0'') = Some 0"
  by (induction k) (simp_all add: is_digit_def)

lemma int_of_str_zeros:
  assumes "max_str_digits < k"
  shows "int_of_str (replicate k CHR ''0'') = None"
proof -
  let ?s = "replicate k CHR ''0''"
  have k: "0 < k" using assms by simp
  have d: "is_digit CHR ''0''" and sp: "\<not> is_space CHR ''0''"
    by (simp_all add: is_digit_def is_space_def)
  have ne: "?s \<noteq> []" and hd: "hd ?s = CHR ''0''"
    using k by simp_all
  have "dropWhile is_space ?s = ?s"
    using ne hd sp by (cases ?s) simp_all
  then have strip: "strip ?s = ?s"
    by (simp add: strip_def)
  have "filter is_digit ?s = ?s"
    using d by simp
  then have len: "length (filter is_digit ?s) = k"
    by simp
  show ?thesis
    unfolding int_of_str_def strip Let_def
    using ne hd d assms by (simp add: digits_value_zeros len)
qed

subsection \<open>The library's part of a response\<close>




section \<open>The claims\<close>

text \<open>
  C5: a GET request whose path is exactly \<^verbatim>\<open>/status\<close> is answered with status 200, the
  header \<^verbatim>\<open>Content-type: application/json\<close> (the handler writes the header name with a
  small t), and the JSON object with \<open>status\<close> \<^verbatim>\<open>healthy\<close> and \<open>version\<close> \<^verbatim>\<open>28.0.1-mock\<close>;
  the second part gives the bytes \<^verbatim>\<open>json.dumps\<close> writes for it.
\<close>

theorem get_status:
  assumes "command r = ''GET''" and "path r = ''/status''"
  shows \<open>reply out r =
           (Returned,
            [StatusLine 200, HeaderLine ''Content-type'' ''application/json'', EndHeaders,
             Body (dumps (JDict [(''status'', JStr ''healthy''), (''version'', JStr ''28.0.1-mock'')]))])
         \<and> dumps (JDict [(''status'', JStr ''healthy''), (''version'', JStr ''28.0.1-mock'')]) =
             ''{"status": "healthy", "version": "28.0.1-mock"}''\<close>
proof -
  have "do_GET (new_handler out r) =
          (Returned, sent 200 (json_wire status_response) (new_handler out r))"
    using assms(2) by (intro do_GET_status) (simp add: request_new_handler)
  then have "reply out r = (Returned, StatusLine 200 # json_wire status_response)"
    by (rule reply_GET [OF assms(1)])
  then show ?thesis
    using dumps_status by (simp only: json_wire_def status_response_def) 
qed

theorem get_status_witness:
  \<open>reply [] \<lparr>command = ''GET'', path = ''/status'', requestline = ''GET /status HTTP/1.1'',
              headers = Map.empty, body = [], closed = False\<rparr> =
     (Returned,
      [StatusLine 200, HeaderLine ''Content-type'' ''application/json'', EndHeaders,
       Body ''{"status": "healthy", "version": "28.0.1-mock"}''])\<close>
  using get_status [of "\<lparr>command = ''GET'', path = ''/status'', requestline = ''GET /status HTTP/1.1'',
              headers = Map.empty, body = [], closed = False\<rparr>" "[]"]
  by simp

text \<open>
  C1: for every \<open>name\<close> without a slash, GET on
  \<^verbatim>\<open>/druid/coordinator/v1/datasources/\<close> \<open>name\<close> \<^verbatim>\<open>/segments\<close> is answered with status 200 and a
  JSON array of one object, whose \<open>dataSource\<close> is \<open>name\<close> and whose other fields are the
  fixed interval, version, partition 0 and size 1000000. And among the GET paths with the
  coordinator prefix, the segments document is the answer exactly when the last token of
  the path is \<^verbatim>\<open>segments\<close>.
\<close>

theorem get_segments:
  assumes "command r = ''GET''"
    and "CHR ''/'' \<notin> set name"
    and "path r = ''/druid/coordinator/v1/datasources/'' @ name @ ''/segments''"
  shows \<open>reply out r =
           (Returned,
            [StatusLine 200, HeaderLine ''Content-type'' ''application/json'', EndHeaders,
             Body (dumps (JList [JDict [
               (''dataSource'', JStr name),
               (''interval'', JStr ''2023-01-01T00:00:00.000Z/2023-01-02T00:00:00.000Z''),
               (''version'', JStr ''2023-01-01T00:00:00.000Z''),
               (''partition'', JInt 0),
               (''size'', JInt 1000000)]]))])
         \<and> (command q = ''GET'' \<and> startswith (path q) ''/druid/coordinator/v1/datasources/'' \<longrightarrow>
              ((\<exists>ds. reply out q =
                      (Returned,
                       [StatusLine 200, HeaderLine ''Content-type'' ''application/json'',
                        EndHeaders, Body (dumps (segments_response ds))]))
               \<longleftrightarrow> last (split CHR ''/'' (path q)) = ''segments''))\<close>
proof -
  have pre: "startswith (path r) ''/druid/coordinator/v1/datasources/''"
    unfolding assms(3) by (rule startswith_append)
  have toks: "split CHR ''/'' (path r) =
                ['''', ''druid'', ''coordinator'', ''v1'', ''datasources'', name, ''segments'']"
    unfolding assms(3) using assms(2) by (rule segments_tokens)
  have "reply out r = (Returned, StatusLine 200 # json_wire (segments_response name))"
    unfolding reply_coordinator [OF assms(1) pre] toks by simp
  then have first: ?thesis if "command q = ''GET'' \<and> startswith (path q) ''/druid/coordinator/v1/datasources/'' \<longrightarrow>
              ((\<exists>ds. reply out q =
                      (Returned,
                       [StatusLine 200, HeaderLine ''Content-type'' ''application/json'',
                        EndHeaders, Body (dumps (segments_response ds))]))
               \<longleftrightarrow> last (split CHR ''/'' (path q)) = ''segments'')"
    using that by (simp only: json_wire_def segments_response_def simp_thms)
  have "(\<exists>ds. reply out q =
                      (Returned,
                       [StatusLine 200, HeaderLine ''Content-type'' ''application/json'',
                        EndHeaders, Body (dumps (segments_response ds))]))
               \<longleftrightarrow> last (split CHR ''/'' (path q)) = ''segments''"
    if q: "command q = ''GET''" "startswith (path q) ''/druid/coordinator/v1/datasources/''"
  proof (cases "last (split CHR ''/'' (path q)) = ''segments''")
    case True
    then show ?thesis
      unfolding reply_coordinator [OF q] by (auto simp add: json_wire_def Let_def)
  next
    case False
    then show ?thesis
      unfolding reply_coordinator [OF q]
      using segments_not_metadata by (simp add: json_wire_def Let_def)
  qed
  then show ?thesis by (intro first) blast
qed

theorem get_segments_witness:
  \<open>reply [] \<lparr>command = ''GET'', path = ''/druid/coordinator/v1/datasources/wikipedia/segments'',
              requestline = ''GET /druid/coordinator/v1/datasources/wikipedia/segments HTTP/1.1'',
              headers = Map.empty, body = [], closed = False\<rparr> =
     (Returned,
      [StatusLine 200, HeaderLine ''Content-type'' ''application/json'', EndHeaders,
       Body ''[{"dataSource": "wikipedia", "interval": "2023-01-01T00:00:00.000Z/2023-01-02T00:00:00.000Z", "version": "2023-01-01T00:00:00.000Z", "partition": 0, "size": 1000000}]''])
   \<and> last (split CHR ''/'' ''/druid/coordinator/v1/datasources/wikipedia/segments'') = ''segments''\<close>
  using get_segments [of
      "\<lparr>command = ''GET'', path = ''/druid/coordinator/v1/datasources/wikipedia/segments'',
        requestline = ''GET /druid/coordinator/v1/datasources/wikipedia/segments HTTP/1.1'',
        headers = Map.empty, body = [], closed = False\<rparr>"
      "''wikipedia''" "[]"
      "\<lparr>command = ''GET'', path = ''/druid/coordinator/v1/datasources/wikipedia/segments'',
        requestline = ''GET /druid/coordinator/v1/datasources/wikipedia/segments HTTP/1.1'',
        headers = Map.empty, body = [], closed = False\<rparr>"]
  by (simp add: Let_def encode_str_def escape_char_def str_int_def str_nat.simps)

text \<open>
  C6: a GET request whose path is exactly \<^verbatim>\<open>/druid/v2/datasources\<close> is answered with status
  200 and the JSON array of \<^verbatim>\<open>wikipedia\<close>, \<^verbatim>\<open>koalas\<close>, \<^verbatim>\<open>flights\<close>, in that order; the second
  part gives the bytes written for it.
\<close>

theorem get_datasources:
  assumes "command r = ''GET''" and "path r = ''/druid/v2/datasources''"
  shows \<open>reply out r =
           (Returned,
            [StatusLine 200, HeaderLine ''Content-type'' ''application/json'', EndHeaders,
             Body (dumps (JList [JStr ''wikipedia'', JStr ''koalas'', JStr ''flights'']))])
         \<and> dumps (JList [JStr ''wikipedia'', JStr ''koalas'', JStr ''flights'']) =
             ''["wikipedia", "koalas", "flights"]''\<close>
proof -
  have "do_GET (new_handler out r) =
          (Returned, sent 200 (json_wire datasources_response) (new_handler out r))"
    using assms(2) by (intro do_GET_datasources) (simp add: request_new_handler)
  then have "reply out r = (Returned, StatusLine 200 # json_wire datasources_response)"
    by (rule reply_GET [OF assms(1)])
  then show ?thesis
    using dumps_datasources by (simp only: json_wire_def datasources_response_def)
qed

theorem get_datasources_witness:
  \<open>reply [] \<lparr>command = ''GET'', path = ''/druid/v2/datasources'',
              requestline = ''GET /druid/v2/datasources HTTP/1.0'',
              headers = Map.empty, body = [], closed = True\<rparr> =
     (Returned,
      [StatusLine 200, HeaderLine ''Content-type'' ''application/json'', EndHeaders,
       Body ''["wikipedia", "koalas", "flights"]''])\<close>
  using get_datasources [of
      "\<lparr>command = ''GET'', path = ''/druid/v2/datasources'',
        requestline = ''GET /druid/v2/datasources HTTP/1.0'',
        headers = Map.empty, body = [], closed = True\<rparr>" "[]"]
  by simp

text \<open>
  C2: for every \<open>name\<close> that is not \<^verbatim>\<open>segments\<close> and has no slash, GET on
  \<^verbatim>\<open>/druid/coordinator/v1/datasources/\<close> \<open>name\<close> is answered with status 200 and the metadata
  object: \<open>name\<close> is the requested name, \<open>segments.intervals\<close> the one fixed interval,
  \<open>columns\<close> the three entries timestamp LONG, count LONG, dimension STRING in this order,
  \<open>queryGranularity\<close> \<^verbatim>\<open>none\<close>, \<open>segmentGranularity\<close> \<^verbatim>\<open>day\<close>, \<open>rollup\<close> false.
\<close>

theorem get_metadata:
  assumes "command r = ''GET''"
    and "name \<noteq> ''segments''" and "CHR ''/'' \<notin> set name"
    and "path r = ''/druid/coordinator/v1/datasources/'' @ name"
  shows "reply out r =
           (Returned,
            [StatusLine 200, HeaderLine ''Content-type'' ''application/json'', EndHeaders,
             Body (dumps (JDict [
               (''name'', JStr name),
               (''segments'', JDict [
                  (''intervals'',
                   JList [JStr ''2023-01-01T00:00:00.000Z/2023-01-02T00:00:00.000Z''])]),
               (''columns'', JList [
                  JDict [(''name'', JStr ''timestamp''), (''type'', JStr ''LONG'')],
                  JDict [(''name'', JStr ''count''), (''type'', JStr ''LONG'')],
                  JDict [(''name'', JStr ''dimension''), (''type'', JStr ''STRING'')]]),
               (''queryGranularity'', JStr ''none''),
               (''segmentGranularity'', JStr ''day''),
               (''rollup'', JBool False)]))])"
proof -
  have pre: "startswith (path r) ''/druid/coordinator/v1/datasources/''"
    unfolding assms(4) by (rule startswith_append)
  have toks: "split CHR ''/'' (path r) =
                ['''', ''druid'', ''coordinator'', ''v1'', ''datasources'', name]"
    unfolding assms(4) using assms(3) by (rule metadata_tokens)
  have "reply out r = (Returned, StatusLine 200 # json_wire (metadata_response name))"
    unfolding reply_coordinator [OF assms(1) pre] toks using assms(2) by simp
  then show ?thesis
    by (simp only: json_wire_def metadata_response_def)
qed

theorem get_metadata_witness:
  \<open>reply [] \<lparr>command = ''GET'', path = ''/druid/coordinator/v1/datasources/koalas'',
              requestline = ''GET /druid/coordinator/v1/datasources/koalas HTTP/1.1'',
              headers = Map.empty, body = [], closed = False\<rparr> =
     (Returned,
      [StatusLine 200, HeaderLine ''Content-type'' ''application/json'', EndHeaders,
       Body ''{"name": "koalas", "segments": {"intervals": ["2023-01-01T00:00:00.000Z/2023-01-02T00:00:00.000Z"]}, "columns": [{"name": "timestamp", "type": "LONG"}, {"name": "count", "type": "LONG"}, {"name": "dimension", "type": "STRING"}], "queryGranularity": "none", "segmentGranularity": "day", "rollup": false}''])\<close>
  using get_metadata [of
      "\<lparr>command = ''GET'', path = ''/druid/coordinator/v1/datasources/koalas'',
        requestline = ''GET /druid/coordinator/v1/datasources/koalas HTTP/1.1'',
        headers = Map.empty, body = [], closed = False\<rparr>" "''koalas''" "[]"]
  by (simp add: encode_str_def escape_char_def)

text \<open>
  C7: for every GET path with the prefix \<^verbatim>\<open>/druid/coordinator/v1/datasources/\<close>, the name in
  the response is the one the specification describes: the token before a final
  \<^verbatim>\<open>segments\<close>, otherwise the final token. It is put into the document as it is, for every
  string: the bytes of the document hold its JSON string, which reads back as exactly the
  token, and which is the token itself between quotes when it has only printable ASCII
  characters other than the quote and the backslash, as a percent-encoded name has.
\<close>

theorem datasource_name_echo:
  assumes "command r = ''GET''"
    and "startswith (path r) ''/druid/coordinator/v1/datasources/''"
    and "n = spec_datasource_name (path r)"
  shows \<open>reply out r =
           (Returned,
            [StatusLine 200, HeaderLine ''Content-type'' ''application/json'', EndHeaders,
             Body (dumps (if last (split CHR ''/'' (path r)) = ''segments''
                          then segments_response n else metadata_response n))])
         \<and> dumps (segments_response n) =
             ''[{"dataSource": '' @ encode_str n @ '', "interval": "2023-01-01T00:00:00.000Z/2023-01-02T00:00:00.000Z", "version": "2023-01-01T00:00:00.000Z", "partition": 0, "size": 1000000}]''
         \<and> dumps (metadata_response n) =
             ''{"name": '' @ encode_str n @ '', "segments": {"intervals": ["2023-01-01T00:00:00.000Z/2023-01-02T00:00:00.000Z"]}, "columns": [{"name": "timestamp", "type": "LONG"}, {"name": "count", "type": "LONG"}, {"name": "dimension", "type": "STRING"}], "queryGranularity": "none", "segmentGranularity": "day", "rollup": false}''
         \<and> decode_str (encode_str n) = Some n
         \<and> (list_all plain_char n \<longrightarrow> encode_str n = [CHR 0x22] @ n @ [CHR 0x22])\<close>
proof -
  let ?toks = "split CHR ''/'' (path r)"
  have "2 \<le> length ?toks"
    using coordinator_tokens_length [OF assms(2)] by simp
  then have "last (butlast ?toks) = ?toks ! (length ?toks - 2)"
    by (rule last_butlast_nth)
  then have
    "(if last ?toks = ''segments'' then segments_response (?toks ! (length ?toks - 2))
      else metadata_response (last ?toks)) =
     (if last ?toks = ''segments'' then segments_response n else metadata_response n)"
    unfolding assms(3) spec_datasource_name_def by (simp add: Let_def)
  then have "reply out r =
      (Returned,
       StatusLine 200 #
       json_wire (if last ?toks = ''segments'' then segments_response n else metadata_response n))"
    unfolding reply_coordinator [OF assms(1) assms(2)] by (simp only: Let_def)
  then have
    "reply out r =
       (Returned,
        [StatusLine 200, HeaderLine ''Content-type'' ''application/json'', EndHeaders,
         Body (dumps (if last ?toks = ''segments''
                      then segments_response n else metadata_response n))])"
    by (simp only: json_wire_def)
  moreover have "list_all plain_char n \<longrightarrow> encode_str n = [CHR 0x22] @ n @ [CHR 0x22]"
    using encode_str_plain [of n] by (simp add: list_all_iff)
  ultimately show ?thesis
    using dumps_segments [of n] dumps_metadata [of n] decode_encode_str [of n] by blast
qed

theorem datasource_name_echo_witness:
  \<open>reply [] \<lparr>command = ''GET'', path = ''/druid/coordinator/v1/datasources/a%20b/segments'',
              requestline = ''GET /druid/coordinator/v1/datasources/a%20b/segments HTTP/1.1'',
              headers = Map.empty, body = [], closed = False\<rparr> =
     (Returned,
      [StatusLine 200, HeaderLine ''Content-type'' ''application/json'', EndHeaders,
       Body ''[{"dataSource": "a%20b", "interval": "2023-01-01T00:00:00.000Z/2023-01-02T00:00:00.000Z", "version": "2023-01-01T00:00:00.000Z", "partition": 0, "size": 1000000}]''])
   \<and> spec_datasource_name ''/druid/coordinator/v1/datasources/a%20b/segments'' = ''a%20b''
   \<and> list_all plain_char ''a%20b''
   \<and> encode_str ''a%20b'' = ''"a%20b"''\<close>
  using datasource_name_echo [of
      "\<lparr>command = ''GET'', path = ''/druid/coordinator/v1/datasources/a%20b/segments'',
        requestline = ''GET /druid/coordinator/v1/datasources/a%20b/segments HTTP/1.1'',
        headers = Map.empty, body = [], closed = False\<rparr>" "''a%20b''" "[]"]
  by (simp add: spec_datasource_name_def Let_def plain_char_def)

text \<open>
  C9: GET on \<^verbatim>\<open>/druid/coordinator/v1/datasources\<close>, without the slash at the end, is answered
  with 404 and no body, since the coordinator branch wants the prefix with the slash; GET
  on \<^verbatim>\<open>/druid/coordinator/v1/datasources/foo/\<close> gets the metadata document, with the empty
  string as its name.
\<close>

theorem coordinator_trailing_slash:
  assumes "command r = ''GET''"
  shows "(path r = ''/druid/coordinator/v1/datasources'' \<longrightarrow>
            reply out r = (Returned, [StatusLine 404, EndHeaders])
            \<and> response_body (snd (reply out r)) = []
            \<and> \<not> startswith (path r) ''/druid/coordinator/v1/datasources/'')
       \<and> (path r = ''/druid/coordinator/v1/datasources/foo/'' \<longrightarrow>
            reply out r =
              (Returned,
               [StatusLine 200, HeaderLine ''Content-type'' ''application/json'', EndHeaders,
                Body (dumps (JDict [
                  (''name'', JStr ''''),
                  (''segments'', JDict [
                     (''intervals'',
                      JList [JStr ''2023-01-01T00:00:00.000Z/2023-01-02T00:00:00.000Z''])]),
                  (''columns'', JList [
                     JDict [(''name'', JStr ''timestamp''), (''type'', JStr ''LONG'')],
                     JDict [(''name'', JStr ''count''), (''type'', JStr ''LONG'')],
                     JDict [(''name'', JStr ''dimension''), (''type'', JStr ''STRING'')]]),
                  (''queryGranularity'', JStr ''none''),
                  (''segmentGranularity'', JStr ''day''),
                  (''rollup'', JBool False)]))]))"
proof -
  have a: "reply out r = (Returned, [StatusLine 404, EndHeaders])
            \<and> response_body (snd (reply out r)) = []
            \<and> \<not> startswith (path r) ''/druid/coordinator/v1/datasources/''"
    if p: "path r = ''/druid/coordinator/v1/datasources''"
  proof -
    have "do_GET (new_handler out r) = (Returned, sent 404 [EndHeaders] (new_handler out r))"
      by (rule do_GET_404) (simp_all add: request_new_handler p)
    then have "reply out r = (Returned, [StatusLine 404, EndHeaders])"
      by (rule reply_GET [OF assms])
    then show ?thesis by (simp add: p)
  qed
  have b: "reply out r =
             (Returned, StatusLine 200 # json_wire (metadata_response ''''))"
    if p: "path r = ''/druid/coordinator/v1/datasources/foo/''"
  proof -
    have pre: "startswith (path r) ''/druid/coordinator/v1/datasources/''"
      by (simp add: p)
    show ?thesis
      unfolding reply_coordinator [OF assms pre] by (simp add: p Let_def)
  qed
  from b have "path r = ''/druid/coordinator/v1/datasources/foo/'' \<longrightarrow>
      reply out r = (Returned, StatusLine 200 # json_wire (metadata_response ''''))"
    by blast
  then have b': "path r = ''/druid/coordinator/v1/datasources/foo/'' \<longrightarrow>
            reply out r =
              (Returned,
               [StatusLine 200, HeaderLine ''Content-type'' ''application/json'', EndHeaders,
                Body (dumps (JDict [
                  (''name'', JStr ''''),
                  (''segments'', JDict [
                     (''intervals'',
                      JList [JStr ''2023-01-01T00:00:00.000Z/2023-01-02T00:00:00.000Z''])]),
                  (''columns'', JList [
                     JDict [(''name'', JStr ''timestamp''), (''type'', JStr ''LONG'')],
                     JDict [(''name'', JStr ''count''), (''type'', JStr ''LONG'')],
                     JDict [(''name'', JStr ''dimension''), (''type'', JStr ''STRING'')]]),
                  (''queryGranularity'', JStr ''none''),
                  (''segmentGranularity'', JStr ''day''),
                  (''rollup'', JBool False)]))])"
    unfolding json_wire_def metadata_response_def .
  from a have a': "path r = ''/druid/coordinator/v1/datasources'' \<longrightarrow>
            reply out r = (Returned, [StatusLine 404, EndHeaders])
            \<and> response_body (snd (reply out r)) = []
            \<and> \<not> startswith (path r) ''/druid/coordinator/v1/datasources/''"
    by (rule impI)
  from a' b' show ?thesis by (rule conjI)
qed

theorem coordinator_trailing_slash_witness:
  \<open>reply [] \<lparr>command = ''GET'', path = ''/druid/coordinator/v1/datasources'',
              requestline = ''GET /druid/coordinator/v1/datasources HTTP/1.1'',
              headers = Map.empty, body = [], closed = False\<rparr> =
     (Returned, [StatusLine 404, EndHeaders])
   \<and> reply [] \<lparr>command = ''GET'', path = ''/druid/coordinator/v1/datasources/foo/'',
              requestline = ''GET /druid/coordinator/v1/datasources/foo/ HTTP/1.1'',
              headers = Map.empty, body = [], closed = False\<rparr> =
     (Returned,
      [StatusLine 200, HeaderLine ''Content-type'' ''application/json'', EndHeaders,
       Body ''{"name": "", "segments": {"intervals": ["2023-01-01T00:00:00.000Z/2023-01-02T00:00:00.000Z"]}, "columns": [{"name": "timestamp", "type": "LONG"}, {"name": "count", "type": "LONG"}, {"name": "dimension", "type": "STRING"}], "queryGranularity": "none", "segmentGranularity": "day", "rollup": false}''])\<close>
  using coordinator_trailing_slash [of
      "\<lparr>command = ''GET'', path = ''/druid/coordinator/v1/datasources'',
        requestline = ''GET /druid/coordinator/v1/datasources HTTP/1.1'',
        headers = Map.empty, body = [], closed = False\<rparr>" "[]"]
    coordinator_trailing_slash [of
      "\<lparr>command = ''GET'', path = ''/druid/coordinator/v1/datasources/foo/'',
        requestline = ''GET /druid/coordinator/v1/datasources/foo/ HTTP/1.1'',
        headers = Map.empty, body = [], closed = False\<rparr>" "[]"]
  by (simp add: encode_str_def escape_char_def)

text \<open>
  C4: a GET path other than \<^verbatim>\<open>/status\<close>, \<^verbatim>\<open>/druid/v2/datasources\<close> and the paths with the
  prefix \<^verbatim>\<open>/druid/coordinator/v1/datasources/\<close>, and a POST path other than
  \<^verbatim>\<open>/druid/v2/sql\<close>, are answered with status 404, no body, and no header of the handler's,
  so no \<^verbatim>\<open>Content-type\<close>.
\<close>

theorem unmatched_404:
  assumes "(command r = ''GET'' \<and> path r \<noteq> ''/status'' \<and> path r \<noteq> ''/druid/v2/datasources''
              \<and> \<not> startswith (path r) ''/druid/coordinator/v1/datasources/'')
         \<or> (command r = ''POST'' \<and> path r \<noteq> ''/druid/v2/sql'')"
  shows "reply out r = (Returned, [StatusLine 404, EndHeaders])
       \<and> response_status (snd (reply out r)) = Some 404
       \<and> response_headers (snd (reply out r)) = []
       \<and> response_body (snd (reply out r)) = []"
proof -
  have "reply out r = (Returned, [StatusLine 404, EndHeaders])"
    using assms
  proof (elim disjE conjE)
    assume get: "command r = ''GET''"
      and "path r \<noteq> ''/status''" "path r \<noteq> ''/druid/v2/datasources''"
      and "\<not> startswith (path r) ''/druid/coordinator/v1/datasources/''"
    then have "do_GET (new_handler out r) = (Returned, sent 404 [EndHeaders] (new_handler out r))"
      by (intro do_GET_404) (simp_all add: request_new_handler)
    then show ?thesis
      by (rule reply_GET [OF get])
  next
    assume post: "command r = ''POST''" and "path r \<noteq> ''/druid/v2/sql''"
    then have "do_POST (new_handler out r) = (Returned, sent 404 [EndHeaders] (new_handler out r))"
      by (intro do_POST_404) (simp add: request_new_handler)
    then show ?thesis
      by (rule reply_POST [OF post]) (simp add: new_handler_def)
  qed
  then show ?thesis by simp
qed

theorem unmatched_404_witness:
  "reply [] \<lparr>command = ''GET'', path = ''/foo'', requestline = ''GET /foo HTTP/1.1'',
             headers = Map.empty, body = [], closed = False\<rparr> =
     (Returned, [StatusLine 404, EndHeaders])
   \<and> reply [] \<lparr>command = ''POST'', path = ''/status'', requestline = ''POST /status HTTP/1.1'',
             headers = [''Content-Length'' \<mapsto> ''2''], body = ''{}'', closed = False\<rparr> =
     (Returned, [StatusLine 404, EndHeaders])"
  using unmatched_404 [of
      "\<lparr>command = ''GET'', path = ''/foo'', requestline = ''GET /foo HTTP/1.1'',
        headers = Map.empty, body = [], closed = False\<rparr>" "[]"]
    unmatched_404 [of
      "\<lparr>command = ''POST'', path = ''/status'', requestline = ''POST /status HTTP/1.1'',
        headers = [''Content-Length'' \<mapsto> ''2''], body = ''{}'', closed = False\<rparr>" "[]"]
  by simp




text \<open>
  C3: a POST request to exactly \<^verbatim>\<open>/druid/v2/sql\<close> that carries a declared content length,
  that is, whose \<^verbatim>\<open>Content-Length\<close> value \<^verbatim>\<open>int\<close> accepts (a literal of at most 4300 digits)
  as an integer \<open>n\<close> that is not negative and not beyond the longest read, and whose body
  has the \<open>n\<close> bytes it declares: the handler reads these \<open>n\<close> bytes (what is left of
  \<^verbatim>\<open>rfile\<close> is the rest) and answers with status 200 and the JSON array of the two rows
  \<^verbatim>\<open>["test"]\<close> and \<^verbatim>\<open>[1]\<close>. The reply is a constant: it mentions neither the body nor the
  headers.
\<close>

theorem post_sql:
  assumes "command r = ''POST''" and "path r = ''/druid/v2/sql''"
    and "headers r ''Content-Length'' = Some v" and "int_of_str v = Some n"
    and "0 \<le> n" and "n \<le> max_read" and "nat n \<le> length (body r)"
  shows \<open>rfile (snd (handle_one_request out r)) = drop (nat n) (body r)
         \<and> reply out r =
             (Returned,
              [StatusLine 200, HeaderLine ''Content-type'' ''application/json'', EndHeaders,
               Body (dumps (JList [JList [JStr ''test''], JList [JInt 1]]))])
         \<and> dumps (JList [JList [JStr ''test''], JList [JInt 1]]) = ''[["test"], [1]]''\<close>
proof -
  let ?h = "new_handler out r"
  have post: "do_POST ?h =
      (Returned, sent 200 (json_wire sql_response) (?h\<lparr>rfile := drop (nat n) (rfile ?h)\<rparr>))"
    using assms(2-7) by (intro do_POST_sql) (simp_all add: new_handler_def)
  then have "rfile (snd (handle_one_request out r)) = drop (nat n) (body r)"
    using assms(1) by (simp add: handle_one_request_def sent_def new_handler_def)
  moreover have "reply out r = (Returned, StatusLine 200 # json_wire sql_response)"
    using post by (rule reply_POST [OF assms(1)]) (simp add: new_handler_def)
  ultimately show ?thesis
    using dumps_sql by (simp only: json_wire_def sql_response_def simp_thms)
qed

theorem post_sql_witness:
  \<open>reply [] \<lparr>command = ''POST'', path = ''/druid/v2/sql'',
              requestline = ''POST /druid/v2/sql HTTP/1.1'',
              headers = [''Content-Length'' \<mapsto> ''21''], body = ''{"query": "SELECT 1"}'',
              closed = False\<rparr> =
     (Returned,
      [StatusLine 200, HeaderLine ''Content-type'' ''application/json'', EndHeaders,
       Body ''[["test"], [1]]''])
   \<and> int_of_str ''21'' = Some 21 \<and> 21 \<le> max_read
   \<and> length ''{"query": "SELECT 1"}'' = 21\<close>
  using post_sql [of
      "\<lparr>command = ''POST'', path = ''/druid/v2/sql'',
        requestline = ''POST /druid/v2/sql HTTP/1.1'',
        headers = [''Content-Length'' \<mapsto> ''21''], body = ''{\"query\": \"SELECT 1\"}'',
        closed = False\<rparr>" "''21''" 21 "[]"]
  by (simp add: int_of_str_def strip_def is_space_def is_digit_def max_str_digits_def
      max_read_def)

text \<open>
  C10: a POST request to \<^verbatim>\<open>/druid/v2/sql\<close> without a \<^verbatim>\<open>Content-Length\<close> header makes the
  handler raise \<^verbatim>\<open>TypeError\<close> in \<^verbatim>\<open>int\<close>, before anything is written: the handler is left as
  it was set up, with an empty \<^verbatim>\<open>wfile\<close> and no new log line. And when such a POST is
  answered with status 200, the header was there and \<^verbatim>\<open>int\<close> has accepted its value.
\<close>

theorem post_without_length:
  assumes "command r = ''POST''" and "path r = ''/druid/v2/sql''"
  shows "(headers r ''Content-Length'' = None \<longrightarrow>
            handle_one_request out r =
              (Raised TypeError, \<lparr>request = r, rfile = body r, wfile = [], stdout = out\<rparr>)
            \<and> reply out r = (Raised TypeError, []))
       \<and> (response_status (snd (reply out r)) = Some 200 \<longrightarrow>
            (\<exists>v n. headers r ''Content-Length'' = Some v \<and> int_of_str v = Some n))"
proof -
  let ?h = "new_handler out r"
  have p: "path (request ?h) = ''/druid/v2/sql''"
    using assms(2) by (simp add: new_handler_def)
  have h: "handle_one_request out r = do_POST ?h"
    using assms(1) by (simp add: handle_one_request_def)
  have a: "handle_one_request out r =
              (Raised TypeError, \<lparr>request = r, rfile = body r, wfile = [], stdout = out\<rparr>)
            \<and> reply out r = (Raised TypeError, [])"
    if "headers r ''Content-Length'' = None"
  proof -
    have "do_POST ?h = (Raised TypeError, ?h)"
      using p that by (intro do_POST_no_length) (simp_all add: new_handler_def)
    then show ?thesis
      by (simp add: h reply_def new_handler_def)
  qed
  have b: "\<exists>v n. headers r ''Content-Length'' = Some v \<and> int_of_str v = Some n"
    if "response_status (snd (reply out r)) = Some 200"
  proof -
    obtain oc h' where eq: "do_POST ?h = (oc, h')"
      by (cases "do_POST ?h")
    have "response_status (wfile h') = Some 200"
      using that by (simp add: reply_def h eq)
    then have "wfile h' \<noteq> wfile ?h"
      by (auto simp add: new_handler_def)
    from do_POST_sent_needs_length [OF p eq this] show ?thesis
      by (simp add: new_handler_def)
  qed
  from a b show ?thesis by blast
qed

theorem post_without_length_witness:
  \<open>reply [] \<lparr>command = ''POST'', path = ''/druid/v2/sql'',
              requestline = ''POST /druid/v2/sql HTTP/1.1'',
              headers = Map.empty, body = ''{}'', closed = True\<rparr> = (Raised TypeError, [])
   \<and> response_status (snd (reply [] \<lparr>command = ''POST'', path = ''/druid/v2/sql'',
              requestline = ''POST /druid/v2/sql HTTP/1.1'',
              headers = [''Content-Length'' \<mapsto> ''2''], body = ''{}'', closed = True\<rparr>)) = Some 200
   \<and> (\<exists>v n. [''Content-Length'' \<mapsto> ''2''] ''Content-Length'' = Some v \<and> int_of_str v = Some n)\<close>
proof -
  have s: "response_status (snd (reply [] \<lparr>command = ''POST'', path = ''/druid/v2/sql'',
              requestline = ''POST /druid/v2/sql HTTP/1.1'',
              headers = [''Content-Length'' \<mapsto> ''2''], body = ''{}'', closed = True\<rparr>)) = Some 200"
    by (simp add: reply_def handle_one_request_def new_handler_def do_POST_def py_int_def
        int_of_str_def strip_def is_space_def is_digit_def max_str_digits_def
        rfile_read_def max_read_def send_defs)
  show ?thesis
    using post_without_length [of
        "\<lparr>command = ''POST'', path = ''/druid/v2/sql'',
          requestline = ''POST /druid/v2/sql HTTP/1.1'',
          headers = Map.empty, body = ''{}'', closed = True\<rparr>" "[]"]
      post_without_length [of
        "\<lparr>command = ''POST'', path = ''/druid/v2/sql'',
          requestline = ''POST /druid/v2/sql HTTP/1.1'',
          headers = [''Content-Length'' \<mapsto> ''2''], body = ''{}'', closed = True\<rparr>" "[]"]
      s
    by simp
qed

end
